theory Spec2Isabelle
  imports Complex_Main
begin

section \<open>Python values\<close>

text \<open>
  A Python \<open>str\<close> is a sequence of Unicode code points. The texts of the application are
  Korean, so a text is a list of code points (what \<open>[ord(c) for c in s]\<close> prints), and
  \<open>ascii\<close> turns a literal that is plain ASCII into such a list.
\<close>

type_synonym ustr = "nat list"

definition ascii :: "string \<Rightarrow> ustr" where
  "ascii s = map of_char s"

text \<open>
  An exception that \<open>except Exception\<close> catches, with the text \<open>str(e)\<close> that an f-string
  prints for it.
\<close>

datatype exn = Exception ustr

fun str_of_exn :: "exn \<Rightarrow> ustr" where
  "str_of_exn (Exception msg) = msg"

text \<open>
  The assumption attributes of a SymPy object (\<open>is_infinite\<close>, \<open>is_real\<close>) are
  three-valued: \<open>True\<close>, \<open>False\<close> or \<open>None\<close>. An \<open>if\<close> takes \<open>None\<close> as false.
\<close>

definition truthy :: "bool option \<Rightarrow> bool" where
  "truthy t = (t = Some True)"

text \<open>The direction of a one-sided limit: \<open>dir='+'\<close> (from above), \<open>dir='-'\<close> (from below).\<close>

datatype dir = Plus | Minus

section \<open>The texts of the application\<close>

definition verdict_uc :: ustr where  \<comment> \<open>line 56 and 84: uniformly continuous\<close>
  "verdict_uc =
    [54217, 46321, 50672, 49549]"

definition verdict_not_uc :: ustr where  \<comment> \<open>lines 54 and 81: not uniformly continuous\<close>
  "verdict_not_uc =
    [54217, 46321, 50672, 49549, 32, 50500, 45784]"

definition verdict_cannot_classify :: ustr where  \<comment> \<open>line 48: cannot classify\<close>
  "verdict_cannot_classify =
    [54032, 48324, 32, 48520, 44032]"

definition verdict_error :: ustr where  \<comment> \<open>line 38: error\<close>
  "verdict_error =
    [50724, 47448]"

definition verdict_fallback :: ustr where  \<comment> \<open>line 86: the trailing return\<close>
  "verdict_fallback =
    [54032, 45800, 32, 48520, 44032]"

definition reason_parse_error :: "ustr \<Rightarrow> ustr" where  \<comment> \<open>line 38, e the text of the exception\<close>
  "reason_parse_error e =
      [54632, 49688, 49885, 51012, 32, 54028, 49905, 54624, 32, 49688, 32, 50630, 49845,
       45768, 45796, 58, 32]
      @ e"

definition reason_closed_infinite :: ustr where  \<comment> \<open>line 47\<close>
  "reason_closed_infinite =
    [45803, 55180, 44396, 44036, 32, 91, 97, 44, 32, 98, 93, 45716, 32, 50976, 54620, 54644,
     50556, 32, 54633, 45768, 45796, 46, 32, 47924, 54620, 45824, 32, 44396, 44036, 51008,
     32, 45803, 55180, 44396, 44036, 51004, 47196, 32, 49444, 51221, 54624, 32, 49688, 32,
     50630, 49845, 45768, 45796, 46]"

definition reason_discontinuous :: "ustr \<Rightarrow> ustr \<Rightarrow> ustr \<Rightarrow> ustr" where  \<comment> \<open>line 53\<close>
  "reason_discontinuous latex_a latex_b latex_p =
      [54632, 49688, 44032, 32, 45803, 55180, 44396, 44036, 32, 36, 91]
      @ latex_a
      @ [44, 32]
      @ latex_b
      @ [93, 36, 32, 45236, 51032, 32, 51216, 32, 36, 120, 32, 61, 32]
      @ latex_p
      @ [36, 32, 50640, 49436, 32, 48520, 50672, 49549, 51060, 48064, 47196, 32, 54217, 46321,
       50672, 49549, 51060, 32, 50500, 45785, 45768, 45796, 46]"

definition reason_heine_cantor :: "ustr \<Rightarrow> ustr \<Rightarrow> ustr" where  \<comment> \<open>line 55\<close>
  "reason_heine_cantor latex_a latex_b =
      [54632, 49688, 44032, 32, 45803, 55180, 44396, 44036, 32, 36, 91]
      @ latex_a
      @ [44, 32]
      @ latex_b
      @ [93, 36, 32, 50640, 49436, 32, 50672, 49549, 51077, 45768, 45796, 46, 32, 46384,
       46972, 49436, 32, 42, 42, 54616, 51060, 45348, 45, 52856, 53664, 50612, 32, 51221,
       47532, 42, 42, 50640, 32, 51032, 54644, 32, 51060, 32, 44396, 44036, 50640, 49436, 32,
       54217, 46321, 50672, 49549, 51077, 45768, 45796, 46]"

definition reason_left_diverges :: "ustr \<Rightarrow> ustr" where  \<comment> \<open>line 68\<close>
  "reason_left_diverges latex_a =
      [44396, 44036, 51032, 32, 50812, 51901, 32, 45149, 51216, 32, 36, 120, 32, 92, 116,
       111, 32]
      @ latex_a
      @ [94, 43, 36, 32, 50640, 49436, 32, 54632, 49688, 51032, 32, 44537, 54620, 51060, 32,
       47924, 54620, 45824, 47196, 32, 48156, 49328, 54616, 48064, 47196, 32, 54217, 46321,
       50672, 49549, 51060, 32, 50500, 45785, 45768, 45796, 46]"

definition reason_right_diverges :: "ustr \<Rightarrow> ustr" where  \<comment> \<open>line 77\<close>
  "reason_right_diverges latex_b =
      [44396, 44036, 51032, 32, 50724, 47480, 51901, 32, 45149, 51216, 32, 36, 120, 32, 92,
       116, 111, 32]
      @ latex_b
      @ [94, 45, 36, 32, 50640, 49436, 32, 54632, 49688, 51032, 32, 44537, 54620, 51060, 32,
       47924, 54620, 45824, 47196, 32, 48156, 49328, 54616, 48064, 47196, 32, 54217, 46321,
       50672, 49549, 51060, 32, 50500, 45785, 45768, 45796, 46]"

definition reason_finite_limits :: ustr where  \<comment> \<open>line 83\<close>
  "reason_finite_limits =
    [44396, 44036, 51032, 32, 50676, 47536, 32, 45149, 51216, 50640, 49436, 32, 54632,
     49688, 51032, 32, 44537, 54620, 51060, 32, 47784, 46160, 32, 50976, 54620, 54620, 32,
     44050, 51004, 47196, 32, 49688, 47156, 54616, 48064, 47196, 32, 54217, 46321, 50672,
     49549, 51077, 45768, 45796, 46]"

definition reason_fallback :: ustr where  \<comment> \<open>line 86\<close>
  "reason_fallback =
    [51228, 44277, 46108, 32, 54032, 48324, 32, 47196, 51649, 51004, 47196, 45716, 32,
     54217, 46321, 50672, 49549, 49457, 51012, 32, 47749, 54869, 55176, 32, 54032, 45800,
     54616, 44592, 32, 50612, 47157, 49845, 45768, 45796, 46]"

definition msg_invalid_bound :: ustr where  \<comment> \<open>line 125: the text of the ValueError\<close>
  "msg_invalid_bound =
    [50976, 54952, 54620, 32, 49892, 49688, 32, 46608, 45716, 32, 44592, 54840, 44032, 32,
     50500, 45785, 45768, 45796, 46]"

definition msg_ordering :: ustr where  \<comment> \<open>line 130\<close>
  "msg_ordering =
    [44396, 44036, 51032, 32, 49884, 51089, 51216, 40, 97, 41, 51008, 32, 45149, 51216, 40,
     98, 41, 48372, 45796, 32, 51089, 50500, 50556, 32, 54633, 45768, 45796, 46]"

definition msg_bound_failure :: "ustr \<Rightarrow> ustr \<Rightarrow> ustr \<Rightarrow> ustr" where  \<comment> \<open>line 134, e the text of the exception\<close>
  "msg_bound_failure a_str b_str e =
      [44396, 44036, 32, 44050, 51012, 32, 54644, 49437, 54616, 45716, 32, 45936, 32, 49892,
       54056, 54664, 49845, 45768, 45796, 58, 32, 39]
      @ a_str
      @ [39, 32, 46608, 45716, 32, 39]
      @ b_str
      @ [39, 46, 32, 50732, 48148, 47480, 32, 54805, 49885, 51012, 32, 51077, 47141, 54644,
       51452, 49464, 50836, 46, 32, 40, 50724, 47448, 58, 32]
      @ e
      @ [41]"

definition banner :: "ustr \<Rightarrow> ustr" where  \<comment> \<open>lines 140 to 142\<close>
  "banner result =
      [42, 42, 54032, 48324, 32, 44208, 44284, 58, 32]
      @ result
      @ [42, 42]"

section \<open>Sampled values\<close>

text \<open>
  A NumPy \<open>float64\<close> is a number, one of the two infinities, or not-a-number. Rounding
  plays no part in what follows, so the numbers are reals. A function made by \<open>lambdify\<close>
  gives an array for an array, or a single number when the expression is a constant.
\<close>

datatype float64 = Finite real | PosInf | NegInf | NaN

datatype ndarray = Array "float64 list" | Scalar float64

section \<open>The symbolic engine\<close>

text \<open>
  SymPy and NumPy are not part of the repository: the classifier is verified for every
  behaviour of the calls it makes, which are the fields of the record below. \<open>'x\<close> is
  the type of SymPy objects (expressions, bounds, points and limits alike).

  A call that the source wraps in \<open>try\<close> may raise, and has a result in \<open>exn + _\<close>. The
  calls that the source makes outside every \<open>try\<close> are taken to return: the attributes
  \<open>is_infinite\<close> and \<open>is_real\<close>, the membership test of line 52, \<open>latex\<close>, \<open>evalf\<close>, the
  truth value of an object; and the set of singularities is taken to be a finite
  collection, which the loop of line 51 runs through.
\<close>

record 'x engine =
  parse_expr :: "ustr \<Rightarrow> exn + 'x"
    \<comment> \<open>line 36: \<open>parse_expr(func_str, local_dict={'x': x}, transformations='all')\<close>\<close>
  singularities :: "'x \<Rightarrow> exn + 'x list"
    \<comment> \<open>line 41: \<open>sympy.singularities(f, x)\<close>, the points in the order the loop of line 51 meets them\<close>
  limit :: "'x \<Rightarrow> 'x \<Rightarrow> dir \<Rightarrow> exn + 'x"
    \<comment> \<open>lines 65 and 74: \<open>sympy.limit(f, x, point, dir=...)\<close>\<close>
  is_infinite :: "'x \<Rightarrow> bool option"
  is_real :: "'x \<Rightarrow> bool option"
  interval_contains :: "'x \<Rightarrow> 'x \<Rightarrow> 'x \<Rightarrow> bool"
    \<comment> \<open>lines 50 and 52: \<open>interval_contains E a b p\<close> is \<open>p in sympy.Interval(a, b)\<close>,
        the closed interval (\<open>Interval\<close> includes both endpoints unless told otherwise)\<close>
  latex :: "'x \<Rightarrow> ustr"
  truth :: "'x \<Rightarrow> bool"
    \<comment> \<open>\<open>bool(obj)\<close>, what \<open>if obj:\<close> tests; SymPy's zero is false, as Python's \<open>0\<close> is\<close>
  parse_bound :: "ustr \<Rightarrow> exn + 'x"
    \<comment> \<open>lines 118 to 122: lower-casing, the replacements of \<open>inf\<close> and \<open>e\<close>, and
        \<open>parse_expr\<close> with the dictionary for \<open>oo\<close>, \<open>E\<close> and \<open>pi\<close>\<close>
  evalf :: "'x \<Rightarrow> real"
    \<comment> \<open>\<open>obj.evalf()\<close>, the number a finite bound stands for\<close>
  lambdify :: "'x \<Rightarrow> float64 list \<Rightarrow> exn + ndarray"
    \<comment> \<open>lines 165 and 167: \<open>sympy.lambdify(x, f, 'numpy')\<close> applied to the sample points\<close>

text \<open>The calls into the engine that compute something, in the order they are made.\<close>

datatype 'x call =
    ParseExpr ustr
  | Singularities 'x
  | Contains 'x 'x 'x
  | Limit 'x 'x dir

section \<open>The classifier\<close>

text \<open>What \<open>check_uniform_continuity\<close> returns: the verdict, its justification, and the
  parsed expression or \<open>None\<close>.\<close>

type_synonym 'x result = "ustr \<times> ustr \<times> 'x option"

definition verdict :: "'x result \<Rightarrow> ustr" where
  "verdict r = fst r"

definition justification :: "'x result \<Rightarrow> ustr" where
  "justification r = fst (snd r)"

definition expression :: "'x result \<Rightarrow> 'x option" where
  "expression r = snd (snd r)"

text \<open>Lines 40 to 43: the singularities, or the empty list when the engine raises.\<close>

definition discontinuities_of :: "'x engine \<Rightarrow> 'x \<Rightarrow> 'x list" where
  "discontinuities_of E f = (case singularities E f of Inl e \<Rightarrow> [] | Inr ps \<Rightarrow> ps)"

text \<open>
  Lines 51 to 54: the loop over the singularities. It stops at the first point that lies
  in the interval; the second component lists the membership tests it made.
\<close>

fun first_in_interval :: "'x engine \<Rightarrow> 'x \<Rightarrow> 'x \<Rightarrow> 'x list \<Rightarrow> 'x option \<times> 'x call list" where
  "first_in_interval E a_sym b_sym [] = (None, [])"
| "first_in_interval E a_sym b_sym (p # ps) =
     (if interval_contains E a_sym b_sym p then (Some p, [Contains a_sym b_sym p])
      else (case first_in_interval E a_sym b_sym ps of
              (found, calls) \<Rightarrow> (found, Contains a_sym b_sym p # calls)))"

text \<open>
  Lines 45 to 56, the branch of the tag \<open>[a, b]\<close>. A block of statements yields
  \<open>Some r\<close> when it returns \<open>r\<close> and \<open>None\<close> when control falls through to what follows it.
\<close>

definition closed_branch ::
  "'x engine \<Rightarrow> 'x \<Rightarrow> 'x list \<Rightarrow> 'x \<Rightarrow> 'x \<Rightarrow> 'x result option \<times> 'x call list" where
  "closed_branch E f discontinuities a_sym b_sym =
     (if truthy (is_infinite E a_sym) \<or> truthy (is_infinite E b_sym)
      then (Some (verdict_cannot_classify, reason_closed_infinite, Some f), [])
      else (case first_in_interval E a_sym b_sym discontinuities of
              (Some p, calls) \<Rightarrow>
                (Some (verdict_not_uc,
                       reason_discontinuous (latex E a_sym) (latex E b_sym) (latex E p),
                       Some f), calls)
            | (None, calls) \<Rightarrow>
                (Some (verdict_uc,
                       reason_heine_cantor (latex E a_sym) (latex E b_sym),
                       Some f), calls)))"

text \<open>
  Lines 62 to 69: the check of the left endpoint. It yields the variables \<open>is_uc\<close> and
  \<open>reason\<close> (\<open>True\<close> and the empty text before it) and the calls made.
\<close>

definition left_endpoint ::
  "'x engine \<Rightarrow> 'x \<Rightarrow> ustr \<Rightarrow> 'x \<Rightarrow> (bool \<times> ustr) \<times> 'x call list" where
  "left_endpoint E f interval_type a_sym =
     (if interval_type \<in> set [ascii ''(a, b)'', ascii ''(a, b]'']
      then (case limit E f a_sym Plus of
              Inl e \<Rightarrow> ((True, []), [Limit f a_sym Plus])
            | Inr limit_a \<Rightarrow>
                (if truthy (is_infinite E limit_a)
                 then ((False, reason_left_diverges (latex E a_sym)), [Limit f a_sym Plus])
                 else ((True, []), [Limit f a_sym Plus])))
      else ((True, []), []))"

text \<open>Lines 71 to 78: the check of the right endpoint, from the variables as they stand.\<close>

definition right_endpoint ::
  "'x engine \<Rightarrow> 'x \<Rightarrow> ustr \<Rightarrow> 'x \<Rightarrow> bool \<times> ustr \<Rightarrow> (bool \<times> ustr) \<times> 'x call list" where
  "right_endpoint E f interval_type b_sym vars =
     (case vars of (is_uc, reason) \<Rightarrow>
        (if is_uc \<and> interval_type \<in> set [ascii ''(a, b)'', ascii ''[a, b)'']
         then (case limit E f b_sym Minus of
                 Inl e \<Rightarrow> ((is_uc, reason), [Limit f b_sym Minus])
               | Inr limit_b \<Rightarrow>
                   (if truthy (is_infinite E limit_b)
                    then ((False, reason_right_diverges (latex E b_sym)), [Limit f b_sym Minus])
                    else ((is_uc, reason), [Limit f b_sym Minus])))
         else ((is_uc, reason), [])))"

text \<open>Lines 57 to 84, the \<open>else\<close> branch.\<close>

definition open_branch ::
  "'x engine \<Rightarrow> 'x \<Rightarrow> ustr \<Rightarrow> 'x \<Rightarrow> 'x \<Rightarrow> 'x result option \<times> 'x call list" where
  "open_branch E f interval_type a_sym b_sym =
     (case left_endpoint E f interval_type a_sym of
        (vars, calls_a) \<Rightarrow>
          (case right_endpoint E f interval_type b_sym vars of
             ((is_uc, reason), calls_b) \<Rightarrow>
               (if \<not> is_uc then Some (verdict_not_uc, reason, Some f)
                else Some (verdict_uc, reason_finite_limits, Some f),
                calls_a @ calls_b)))"

text \<open>
  Lines 33 to 86. The first component is what the function returns, the second the
  calls into the engine it made, in order. The last return of the source (line 86)
  stands after the \<open>if\<close>/\<open>else\<close>, and is taken when neither branch returned.
\<close>

definition check_uniform_continuity ::
  "'x engine \<Rightarrow> ustr \<Rightarrow> ustr \<Rightarrow> 'x \<Rightarrow> 'x \<Rightarrow> 'x result \<times> 'x call list" where
  "check_uniform_continuity E func_str interval_type a_sym b_sym =
     (case parse_expr E func_str of
        Inl e \<Rightarrow>
          ((verdict_error, reason_parse_error (str_of_exn e), None), [ParseExpr func_str])
      | Inr f \<Rightarrow>
          (let discontinuities = discontinuities_of E f in
           (case (if interval_type = ascii ''[a, b]''
                  then closed_branch E f discontinuities a_sym b_sym
                  else open_branch E f interval_type a_sym b_sym) of
              (returned, calls) \<Rightarrow>
                ((case returned of
                    Some r \<Rightarrow> r
                  | None \<Rightarrow> (verdict_fallback, reason_fallback, Some f)),
                 ParseExpr func_str # Singularities f # calls))))"

section \<open>Vocabulary of the properties\<close>

text \<open>
  ``The one-sided limit is infinite'': the engine returns a limit and reports it
  infinite. A limit that the engine fails to compute does not count.
\<close>

definition limit_is_infinite :: "'x engine \<Rightarrow> 'x \<Rightarrow> 'x \<Rightarrow> dir \<Rightarrow> bool" where
  "limit_is_infinite E f point d =
     (case limit E f point d of Inl e \<Rightarrow> False | Inr l \<Rightarrow> truthy (is_infinite E l))"

text \<open>
  The engine \<open>E\<close> with every failure taken as ``nothing found'': where \<open>singularities\<close>
  raises it gives the empty list, and where \<open>limit\<close> raises it gives the value \<open>c\<close>.
\<close>

definition forgiving :: "'x \<Rightarrow> 'x engine \<Rightarrow> 'x engine" where
  "forgiving c E =
     E\<lparr>singularities := (\<lambda>f. case singularities E f of Inl e \<Rightarrow> Inr [] | Inr ps \<Rightarrow> Inr ps),
       limit := (\<lambda>f point d. case limit E f point d of Inl e \<Rightarrow> Inr c | Inr l \<Rightarrow> Inr l)\<rparr>"

section \<open>The plot\<close>

definition isinf :: "float64 \<Rightarrow> bool" where  \<comment> \<open>\<open>np.isinf\<close>\<close>
  "isinf y = (y = PosInf \<or> y = NegInf)"

definition isneginf :: "float64 \<Rightarrow> bool" where  \<comment> \<open>\<open>np.isneginf\<close>\<close>
  "isneginf y = (y = NegInf)"

text \<open>\<open>y[selected] = v\<close> for a boolean array as long as \<open>y\<close>.\<close>

definition assign_where :: "bool list \<Rightarrow> 'a \<Rightarrow> 'a list \<Rightarrow> 'a list" where
  "assign_where selected v ys = map2 (\<lambda>s y. if s then v else y) selected ys"

text \<open>Line 168: \<open>y_vals[np.isinf(y_vals) | np.isneginf(y_vals)] = np.nan\<close>.\<close>

definition replace_infinities :: "float64 list \<Rightarrow> float64 list" where
  "replace_infinities y_vals =
     assign_where (map2 (\<or>) (map isinf y_vals) (map isneginf y_vals)) NaN y_vals"

text \<open>
  Lines 167 and 168: the series handed to \<open>ax.plot\<close>, or \<open>None\<close> when an exception
  sends control to line 194: \<open>f_lambda\<close> raised, or it gave a single number, and item
  assignment on a number raises \<open>TypeError\<close>.
\<close>

definition plot_series :: "(float64 list \<Rightarrow> exn + ndarray) \<Rightarrow> float64 list \<Rightarrow> float64 list option" where
  "plot_series f_lambda x_vals =
     (case f_lambda x_vals of
        Inl e \<Rightarrow> None
      | Inr (Scalar y) \<Rightarrow> None
      | Inr (Array y_vals) \<Rightarrow> Some (replace_infinities y_vals))"

text \<open>Lines 151 to 163: the window of the plot.\<close>

definition plot_window :: "'x engine \<Rightarrow> 'x \<Rightarrow> 'x \<Rightarrow> real \<times> real" where
  "plot_window E a_sym b_sym =
     (if truthy (is_infinite E a_sym) \<and> truthy (is_infinite E b_sym) then (- 10, 10)
      else if truthy (is_infinite E a_sym) then (evalf E b_sym - 20, evalf E b_sym)
      else if truthy (is_infinite E b_sym) then (evalf E a_sym, evalf E a_sym + 20)
      else (evalf E a_sym, evalf E b_sym))"

text \<open>\<open>np.linspace(start, stop, num)\<close>: \<open>num\<close> evenly spaced points from \<open>start\<close> to \<open>stop\<close>.\<close>

definition linspace :: "real \<Rightarrow> real \<Rightarrow> nat \<Rightarrow> float64 list" where
  "linspace start stop num =
     map (\<lambda>i. Finite (start + real i * ((stop - start) / real (num - 1)))) [0..<num]"

text \<open>
  What the page shows below the justification: no plot section (the guard of line 147
  failed), the error message of line 195, or the sample points and the series of line 173.
\<close>

datatype plot = NoPlotSection | PlotFailed | Series "float64 list" "float64 list"

definition plot_section :: "'x engine \<Rightarrow> 'x \<Rightarrow> 'x \<Rightarrow> 'x \<Rightarrow> plot" where
  "plot_section E func_sympy a_sym b_sym =
     (case plot_window E a_sym b_sym of
        (plot_a_num, plot_b_num) \<Rightarrow>
          (let x_vals = linspace plot_a_num plot_b_num 500 in
           (case plot_series (lambdify E func_sympy) x_vals of
              None \<Rightarrow> PlotFailed
            | Some y_vals \<Rightarrow> Series x_vals y_vals)))"

section \<open>The submission handler\<close>

text \<open>
  Lines 115 to 135: the two bounds, or the messages \<open>st.error\<close> showed before \<open>st.stop()\<close>
  ended the run. \<open>st.stop()\<close> ends the run by an exception that is no \<open>Exception\<close>, so the
  handler of line 133 does not see the stop of line 131.
\<close>

definition read_bounds :: "'x engine \<Rightarrow> ustr \<Rightarrow> ustr \<Rightarrow> ustr list + 'x \<times> 'x" where
  "read_bounds E a_str b_str =
     (case parse_bound E a_str of
        Inl e \<Rightarrow> Inl [msg_bound_failure a_str b_str (str_of_exn e)]
      | Inr a_sym \<Rightarrow>
          (case parse_bound E b_str of
             Inl e \<Rightarrow> Inl [msg_bound_failure a_str b_str (str_of_exn e)]
           | Inr b_sym \<Rightarrow>
               (if \<not> (truthy (is_real E a_sym) \<or> truthy (is_infinite E a_sym))
                   \<or> \<not> (truthy (is_real E b_sym) \<or> truthy (is_infinite E b_sym))
                then Inl [msg_bound_failure a_str b_str msg_invalid_bound]
                else if \<not> truthy (is_infinite E a_sym) \<and> \<not> truthy (is_infinite E b_sym)
                        \<and> evalf E a_sym \<ge> evalf E b_sym
                then Inl [msg_ordering]
                else Inr (a_sym, b_sym))))"

datatype level = Success | Error | Warning

record 'x page =
  bounds :: "'x \<times> 'x"
  classified :: "'x result"
  engine_calls :: "'x call list"
  headline :: "level \<times> ustr"
  info :: ustr
  plotted :: plot

datatype 'x submission = Stopped "ustr list" | Shown "'x page"

text \<open>Lines 114 to 195: one press of the button.\<close>

definition on_submit :: "'x engine \<Rightarrow> ustr \<Rightarrow> ustr \<Rightarrow> ustr \<Rightarrow> ustr \<Rightarrow> 'x submission" where
  "on_submit E func_input interval_type a_str b_str =
     (case read_bounds E a_str b_str of
        Inl messages \<Rightarrow> Stopped messages
      | Inr (a_sym, b_sym) \<Rightarrow>
          (case check_uniform_continuity E func_input interval_type a_sym b_sym of
             ((result, reason, func_sympy), calls) \<Rightarrow>
               Shown \<lparr>bounds = (a_sym, b_sym),
                      classified = (result, reason, func_sympy),
                      engine_calls = calls,
                      headline =
                        (if result = verdict_uc then Success
                         else if result = verdict_not_uc then Error
                         else Warning, banner result),
                      info = reason,
                      plotted =
                        (case func_sympy of
                           None \<Rightarrow> NoPlotSection
                         | Some f \<Rightarrow>
                             if truth E f then plot_section E f a_sym b_sym
                             else NoPlotSection)\<rparr>))"

section \<open>A small engine for concrete runs\<close>

text \<open>
  An engine that knows a handful of objects, enough to run the classifier on the
  examples of the specification: the numbers, the two infinities, the expressions \<open>1/x\<close>
  and \<open>sin(x)\<close>, an expression \<open>Opaque\<close> on which every computation raises, and \<open>Other\<close>
  for a finite value that has no name here.
\<close>

datatype sym = Num int | Oo | NegOo | Recip | Sine | Opaque | Other

fun digits :: "nat \<Rightarrow> ustr" where
  "digits n = (if n < 10 then [48 + n] else digits (n div 10) @ [48 + n mod 10])"

declare digits.simps [simp del]

definition demo_latex :: "sym \<Rightarrow> ustr" where
  "demo_latex s =
     (case s of
        Num n \<Rightarrow> (if n < 0 then ascii ''-'' @ digits (nat (- n)) else digits (nat n))
      | Oo \<Rightarrow> 92 # ascii ''infty''
      | NegOo \<Rightarrow> ascii ''-'' @ 92 # ascii ''infty''
      | Recip \<Rightarrow> 92 # ascii ''frac{1}{x}''
      | Sine \<Rightarrow> 92 # ascii ''sin{'' @ 92 # ascii ''left(x '' @ 92 # ascii ''right)}''
      | Opaque \<Rightarrow> ascii ''g{'' @ 92 # ascii ''left(x '' @ 92 # ascii ''right)}''
      | Other \<Rightarrow> ascii ''c'')"

definition demo_parse_expr :: "ustr \<Rightarrow> exn + sym" where
  "demo_parse_expr s =
     (if s = ascii ''1/x'' then Inr Recip
      else if s = ascii ''sin(x)'' then Inr Sine
      else if s = ascii ''g(x)'' then Inr Opaque
      else if s = ascii ''0'' then Inr (Num 0)
      else if s = ascii ''1'' then Inr (Num 1)
      else Inl (Exception (ascii ''invalid syntax'')))"

definition demo_parse_bound :: "ustr \<Rightarrow> exn + sym" where
  "demo_parse_bound s =
     (if s = ascii ''inf'' then Inr Oo
      else if s = ascii ''-inf'' then Inr NegOo
      else if s = ascii ''-1'' then Inr (Num (- 1))
      else if s = ascii ''0'' then Inr (Num 0)
      else if s = ascii ''1'' then Inr (Num 1)
      else if s = ascii ''5'' then Inr (Num 5)
      else if s = ascii ''x'' then Inr Other
      else Inl (Exception (ascii ''invalid syntax'')))"

definition demo_singularities :: "sym \<Rightarrow> exn + sym list" where
  "demo_singularities f =
     (case f of
        Recip \<Rightarrow> Inr [Num 0]
      | Opaque \<Rightarrow> Inl (Exception [])
      | _ \<Rightarrow> Inr [])"

definition demo_limit :: "sym \<Rightarrow> sym \<Rightarrow> dir \<Rightarrow> exn + sym" where
  "demo_limit f point d =
     (case f of
        Recip \<Rightarrow>
          (if point = Num 0 then Inr (if d = Plus then Oo else NegOo)
           else if point = Num 1 \<or> point = Num (- 1) then Inr point
           else if point = Oo \<or> point = NegOo then Inr (Num 0)
           else Inr Other)
      | Sine \<Rightarrow> (if point = Num 0 then Inr (Num 0) else Inr Other)
      | Opaque \<Rightarrow> Inl (Exception [])
      | _ \<Rightarrow> Inr f)"

definition demo_is_infinite :: "sym \<Rightarrow> bool option" where
  "demo_is_infinite s =
     (case s of Oo \<Rightarrow> Some True | NegOo \<Rightarrow> Some True | Num n \<Rightarrow> Some False
      | Other \<Rightarrow> Some False | _ \<Rightarrow> None)"

definition demo_is_real :: "sym \<Rightarrow> bool option" where
  "demo_is_real s =
     (case s of Oo \<Rightarrow> Some False | NegOo \<Rightarrow> Some False | Num n \<Rightarrow> Some True
      | _ \<Rightarrow> None)"

definition demo_contains :: "sym \<Rightarrow> sym \<Rightarrow> sym \<Rightarrow> bool" where
  "demo_contains a b p =
     (case (a, b, p) of (Num lo, Num hi, Num v) \<Rightarrow> lo \<le> v \<and> v \<le> hi | _ \<Rightarrow> False)"

definition demo_truth :: "sym \<Rightarrow> bool" where
  "demo_truth s = (s \<noteq> Num 0)"

definition demo_evalf :: "sym \<Rightarrow> real" where
  "demo_evalf s = (case s of Num n \<Rightarrow> of_int n | _ \<Rightarrow> 0)"

definition recip :: "float64 \<Rightarrow> float64" where
  "recip y =
     (case y of Finite r \<Rightarrow> (if r = 0 then PosInf else Finite (1 / r))
      | PosInf \<Rightarrow> Finite 0 | NegInf \<Rightarrow> Finite 0 | NaN \<Rightarrow> NaN)"

definition demo_lambdify :: "sym \<Rightarrow> float64 list \<Rightarrow> exn + ndarray" where
  "demo_lambdify f x_vals =
     (case f of
        Recip \<Rightarrow> Inr (Array (map recip x_vals))
      | Num n \<Rightarrow> Inr (Scalar (Finite (of_int n)))
      | _ \<Rightarrow> Inl (Exception []))"

definition demo :: "sym engine" where
  "demo =
     \<lparr>parse_expr = demo_parse_expr, singularities = demo_singularities, limit = demo_limit,
      is_infinite = demo_is_infinite, is_real = demo_is_real,
      interval_contains = demo_contains, latex = demo_latex, truth = demo_truth,
      parse_bound = demo_parse_bound, evalf = demo_evalf, lambdify = demo_lambdify\<rparr>"

section \<open>Basic facts\<close>

lemma ascii_eq_iff [simp]: "ascii s = ascii t \<longleftrightarrow> s = t"
  by (simp add: ascii_def inj_map_eq_map inj_on_def)


lemma demo_simps:
  "parse_expr demo = demo_parse_expr" "singularities demo = demo_singularities"
  "limit demo = demo_limit" "is_infinite demo = demo_is_infinite" "is_real demo = demo_is_real"
  "interval_contains demo = demo_contains" "latex demo = demo_latex" "truth demo = demo_truth"
  "parse_bound demo = demo_parse_bound" "evalf demo = demo_evalf" "lambdify demo = demo_lambdify"
  by (simp_all add: demo_def)

lemma demo_parse_1x: "parse_expr demo (ascii ''1/x'') = Inr Recip"
  by (simp add: demo_simps demo_parse_expr_def)

lemma demo_parse_sin: "parse_expr demo (ascii ''sin(x)'') = Inr Sine"
  by (simp add: demo_simps demo_parse_expr_def)

lemma demo_parse_g: "parse_expr demo (ascii ''g(x)'') = Inr Opaque"
  by (simp add: demo_simps demo_parse_expr_def)


lemma demo_parse_bad: "parse_expr demo (ascii ''1/'') = Inl (Exception (ascii ''invalid syntax''))"
  by (simp add: demo_simps demo_parse_expr_def)

lemma demo_latex_small:
  "latex demo (Num 0) = ascii ''0''" "latex demo (Num 1) = ascii ''1''"
  "latex demo (Num (- 1)) = ascii ''-1''"
  by (simp_all add: demo_simps demo_latex_def digits.simps ascii_def)

lemma demo_infinite:
  "truthy (is_infinite demo Oo)" "truthy (is_infinite demo NegOo)"
  "\<not> truthy (is_infinite demo (Num n))" "\<not> truthy (is_infinite demo Other)"
  by (simp_all add: demo_simps demo_is_infinite_def truthy_def)

lemma demo_bounds:
  "parse_bound demo (ascii ''5'') = Inr (Num 5)" "parse_bound demo (ascii ''1'') = Inr (Num 1)"
  "parse_bound demo (ascii ''0'') = Inr (Num 0)" "parse_bound demo (ascii ''inf'') = Inr Oo"
  "parse_bound demo (ascii ''-inf'') = Inr NegOo"
  by (simp_all add: demo_simps demo_parse_bound_def)

lemma demo_real: "truthy (is_real demo (Num n))"
  by (simp add: demo_simps demo_is_real_def truthy_def)

lemma demo_read_bounds:
  "read_bounds demo (ascii ''0'') (ascii ''1'') = Inr (Num 0, Num 1)"
  "read_bounds demo (ascii ''-inf'') (ascii ''inf'') = Inr (NegOo, Oo)"
  by (simp_all add: read_bounds_def demo_bounds demo_real demo_infinite)
     (simp_all add: demo_simps demo_evalf_def)

text \<open>The loop of line 51 finds the first singularity that lies in the interval.\<close>

lemma first_in_interval_find:
  "fst (first_in_interval E a b ps) = find (interval_contains E a b) ps"
  by (induction ps) (auto split: prod.splits)

lemma first_in_interval_calls:
  "set (snd (first_in_interval E a b ps)) \<subseteq> (\<lambda>p. Contains a b p) ` set ps"
  by (induction ps) (auto split: prod.splits)

section \<open>The closed interval\<close>

lemma closed_finite_result:
  assumes "parse_expr E func_str = Inr f"
      and "\<not> truthy (is_infinite E a_sym)" and "\<not> truthy (is_infinite E b_sym)"
  shows "fst (check_uniform_continuity E func_str (ascii ''[a, b]'') a_sym b_sym) =
           (case find (interval_contains E a_sym b_sym) (discontinuities_of E f) of
              Some p \<Rightarrow> (verdict_not_uc,
                          reason_discontinuous (latex E a_sym) (latex E b_sym) (latex E p), Some f)
            | None \<Rightarrow> (verdict_uc, reason_heine_cantor (latex E a_sym) (latex E b_sym), Some f))"
proof -
  obtain found calls where fc:
    "first_in_interval E a_sym b_sym (discontinuities_of E f) = (found, calls)"
    by (cases "first_in_interval E a_sym b_sym (discontinuities_of E f)")
  then have "find (interval_contains E a_sym b_sym) (discontinuities_of E f) = found"
    using first_in_interval_find [of E a_sym b_sym "discontinuities_of E f"] by simp
  with fc assms show ?thesis
    by (cases found) (simp_all add: check_uniform_continuity_def closed_branch_def)
qed



section \<open>The other interval tags\<close>

lemma left_endpoint_eq:
  "left_endpoint E f t a =
     (if t \<in> set [ascii ''(a, b)'', ascii ''(a, b]'']
      then (if limit_is_infinite E f a Plus
            then ((False, reason_left_diverges (latex E a)), [Limit f a Plus])
            else ((True, []), [Limit f a Plus]))
      else ((True, []), []))"
  by (simp add: left_endpoint_def limit_is_infinite_def split: sum.splits)

lemma right_endpoint_eq:
  "right_endpoint E f t b (True, r) =
     (if t \<in> set [ascii ''(a, b)'', ascii ''[a, b)'']
      then (if limit_is_infinite E f b Minus
            then ((False, reason_right_diverges (latex E b)), [Limit f b Minus])
            else ((True, r), [Limit f b Minus]))
      else ((True, r), []))"
  by (simp add: right_endpoint_def limit_is_infinite_def split: sum.splits)

lemma right_endpoint_skipped:
  "right_endpoint E f t b (False, r) = ((False, r), [])"
  by (simp add: right_endpoint_def)

text \<open>The \<open>else\<close> branch as a decision list: left endpoint, right endpoint, neither.\<close>

lemma open_branch_eq:
  "open_branch E f t a b =
     (if t \<in> set [ascii ''(a, b)'', ascii ''(a, b]''] \<and> limit_is_infinite E f a Plus
      then (Some (verdict_not_uc, reason_left_diverges (latex E a), Some f), [Limit f a Plus])
      else if t \<in> set [ascii ''(a, b)'', ascii ''[a, b)''] \<and> limit_is_infinite E f b Minus
      then (Some (verdict_not_uc, reason_right_diverges (latex E b), Some f),
            (if t \<in> set [ascii ''(a, b)'', ascii ''(a, b]''] then [Limit f a Plus] else [])
              @ [Limit f b Minus])
      else (Some (verdict_uc, reason_finite_limits, Some f),
            (if t \<in> set [ascii ''(a, b)'', ascii ''(a, b]''] then [Limit f a Plus] else [])
              @ (if t \<in> set [ascii ''(a, b)'', ascii ''[a, b)''] then [Limit f b Minus] else [])))"
  unfolding open_branch_def left_endpoint_eq
  by (simp add: right_endpoint_eq right_endpoint_skipped)

lemma check_open:
  assumes "parse_expr E func_str = Inr f" and "t \<noteq> ascii ''[a, b]''"
  shows "check_uniform_continuity E func_str t a b =
           (case open_branch E f t a b of
              (returned, calls) \<Rightarrow> (the returned, ParseExpr func_str # Singularities f # calls))"
  using assms by (simp add: check_uniform_continuity_def open_branch_eq)

text \<open>
  Claim C2. On the tags \<open>(a, b)\<close> and \<open>(a, b]\<close>, for a function text that parses: when
  the limit from above at \<open>a\<close> is infinite, the classifier returns ``not uniformly
  continuous'' with the justification about the left endpoint, and the only calls into
  the engine are the parse, the singularities and that one limit: the limit from below
  at \<open>b\<close> is not evaluated.
\<close>

theorem left_endpoint_short_circuit:
  assumes "parse_expr E func_str = Inr f"
      and "interval_type = ascii ''(a, b)'' \<or> interval_type = ascii ''(a, b]''"
      and "limit_is_infinite E f a_sym Plus"
  shows "fst (check_uniform_continuity E func_str interval_type a_sym b_sym)
           = (verdict_not_uc, reason_left_diverges (latex E a_sym), Some f)
       \<and> snd (check_uniform_continuity E func_str interval_type a_sym b_sym)
           = [ParseExpr func_str, Singularities f, Limit f a_sym Plus]
       \<and> Limit f b_sym Minus \<notin> set (snd (check_uniform_continuity E func_str interval_type a_sym b_sym))"
proof -
  from assms(2) have "interval_type \<noteq> ascii ''[a, b]''" by auto
  from check_open [OF assms(1) this] assms(2,3) show ?thesis
    by (auto simp add: open_branch_eq)
qed

text \<open>\<open>1/x\<close> on \<open>(0, 1)\<close>: the limit at \<open>0\<close> from above is infinite.\<close>

theorem left_endpoint_short_circuit_witness:
  "parse_expr demo (ascii ''1/x'') = Inr Recip
   \<and> limit_is_infinite demo Recip (Num 0) Plus
   \<and> fst (check_uniform_continuity demo (ascii ''1/x'') (ascii ''(a, b)'') (Num 0) (Num 1))
       = (verdict_not_uc, reason_left_diverges (ascii ''0''), Some Recip)
   \<and> snd (check_uniform_continuity demo (ascii ''1/x'') (ascii ''(a, b)'') (Num 0) (Num 1))
       = [ParseExpr (ascii ''1/x''), Singularities Recip, Limit Recip (Num 0) Plus]
   \<and> Limit Recip (Num 1) Minus
       \<notin> set (snd (check_uniform_continuity demo (ascii ''1/x'') (ascii ''(a, b)'') (Num 0) (Num 1)))"
proof -
  have l: "limit_is_infinite demo Recip (Num 0) Plus"
    by (simp add: limit_is_infinite_def demo_simps demo_limit_def demo_is_infinite_def truthy_def)
  from left_endpoint_short_circuit [OF demo_parse_1x _ l, of "ascii ''(a, b)''" "Num 1"]
    demo_parse_1x l demo_latex_small
  show ?thesis by simp
qed

text \<open>
  Claim C3. On every tag other than \<open>[a, b]\<close>, for a function text that parses, when the
  check of the left endpoint did not fire (the tag has a closed left endpoint, or the
  limit from above at \<open>a\<close> is not infinite): if the tag is \<open>(a, b)\<close> or \<open>[a, b)\<close> and the
  limit from below at \<open>b\<close> is infinite, the classifier returns ``not uniformly continuous''
  with the justification about the right endpoint; otherwise it returns ``uniformly
  continuous'' with the justification about finite limits at the open ends.
\<close>

theorem right_endpoint_verdict:
  assumes "parse_expr E func_str = Inr f"
      and "interval_type \<noteq> ascii ''[a, b]''"
      and "\<not> ((interval_type = ascii ''(a, b)'' \<or> interval_type = ascii ''(a, b]'')
              \<and> limit_is_infinite E f a_sym Plus)"
  shows "fst (check_uniform_continuity E func_str interval_type a_sym b_sym) =
           (if (interval_type = ascii ''(a, b)'' \<or> interval_type = ascii ''[a, b)'')
               \<and> limit_is_infinite E f b_sym Minus
            then (verdict_not_uc, reason_right_diverges (latex E b_sym), Some f)
            else (verdict_uc, reason_finite_limits, Some f))"
  using check_open [OF assms(1,2)] assms(3)
  by (auto simp add: open_branch_eq)

text \<open>
  \<open>1/x\<close> on \<open>(-1, 0)\<close>: the limit at \<open>-1\<close> is finite, the limit at \<open>0\<close> from below is
  infinite. \<open>sin(x)\<close> on \<open>(-inf, inf)\<close>: neither limit is infinite.
\<close>

theorem right_endpoint_verdict_witness:
  "parse_expr demo (ascii ''1/x'') = Inr Recip
   \<and> \<not> limit_is_infinite demo Recip (Num (- 1)) Plus
   \<and> limit_is_infinite demo Recip (Num 0) Minus
   \<and> fst (check_uniform_continuity demo (ascii ''1/x'') (ascii ''(a, b)'') (Num (- 1)) (Num 0))
       = (verdict_not_uc, reason_right_diverges (ascii ''0''), Some Recip)
   \<and> parse_expr demo (ascii ''sin(x)'') = Inr Sine
   \<and> \<not> limit_is_infinite demo Sine NegOo Plus
   \<and> \<not> limit_is_infinite demo Sine Oo Minus
   \<and> fst (check_uniform_continuity demo (ascii ''sin(x)'') (ascii ''(a, b)'') NegOo Oo)
       = (verdict_uc, reason_finite_limits, Some Sine)"
proof -
  have l: "\<not> limit_is_infinite demo Recip (Num (- 1)) Plus"
          "limit_is_infinite demo Recip (Num 0) Minus"
          "\<not> limit_is_infinite demo Sine NegOo Plus"
          "\<not> limit_is_infinite demo Sine Oo Minus"
    by (simp_all add: limit_is_infinite_def demo_simps demo_limit_def demo_is_infinite_def
                      truthy_def)
  have t: "ascii ''(a, b)'' \<noteq> ascii ''[a, b]''" by simp
  from right_endpoint_verdict [OF demo_parse_1x t, of "Num (- 1)" "Num 0"]
       right_endpoint_verdict [OF demo_parse_sin t, of NegOo Oo]
       l demo_parse_1x demo_parse_sin demo_latex_small
  show ?thesis by simp
qed

section \<open>Early returns\<close>

text \<open>
  Claim C4. On the tag \<open>[a, b]\<close>, for a function text that parses, when either bound is
  infinite the classifier returns ``cannot classify'', and the only calls into the engine
  are the parse and the singularities: no membership test and no limit.
\<close>

theorem closed_infinite_bound:
  assumes "parse_expr E func_str = Inr f"
      and "truthy (is_infinite E a_sym) \<or> truthy (is_infinite E b_sym)"
  shows "check_uniform_continuity E func_str (ascii ''[a, b]'') a_sym b_sym =
           ((verdict_cannot_classify, reason_closed_infinite, Some f),
            [ParseExpr func_str, Singularities f])"
  using assms by (auto simp add: check_uniform_continuity_def closed_branch_def)

theorem closed_infinite_bound_witness:
  "parse_expr demo (ascii ''sin(x)'') = Inr Sine
   \<and> truthy (is_infinite demo NegOo)
   \<and> check_uniform_continuity demo (ascii ''sin(x)'') (ascii ''[a, b]'') NegOo (Num 1) =
       ((verdict_cannot_classify, reason_closed_infinite, Some Sine),
        [ParseExpr (ascii ''sin(x)''), Singularities Sine])"
  using closed_infinite_bound [OF demo_parse_sin, of NegOo "Num 1"] demo_parse_sin demo_infinite
  by simp

text \<open>
  Claim C6. When the function text does not parse, the classifier returns the verdict
  ``error'', the justification that ends with the text of the parser's exception, and no
  expression; the parse is its only call into the engine.
\<close>

theorem parse_failure:
  assumes "parse_expr E func_str = Inl e"
  shows "check_uniform_continuity E func_str interval_type a_sym b_sym =
           ((verdict_error, reason_parse_error (str_of_exn e), None), [ParseExpr func_str])"
  using assms by (simp add: check_uniform_continuity_def)

theorem parse_failure_witness:
  "parse_expr demo (ascii ''1/'') = Inl (Exception (ascii ''invalid syntax''))
   \<and> check_uniform_continuity demo (ascii ''1/'') (ascii ''(a, b)'') (Num 0) (Num 1) =
       ((verdict_error, reason_parse_error (ascii ''invalid syntax''), None),
        [ParseExpr (ascii ''1/'')])"
  using parse_failure [OF demo_parse_bad, of "ascii ''(a, b)''" "Num 0" "Num 1"] demo_parse_bad
  by simp

section \<open>The last return\<close>







section \<open>Failures of the engine\<close>

lemma forgiving_fields:
  "parse_expr (forgiving c E) = parse_expr E" "is_infinite (forgiving c E) = is_infinite E"
  "interval_contains (forgiving c E) = interval_contains E" "latex (forgiving c E) = latex E"
  "singularities (forgiving c E) f =
     (case singularities E f of Inl e \<Rightarrow> Inr [] | Inr ps \<Rightarrow> Inr ps)"
  "limit (forgiving c E) f point d =
     (case limit E f point d of Inl e \<Rightarrow> Inr c | Inr l \<Rightarrow> Inr l)"
  by (simp_all add: forgiving_def)

lemma forgiving_discontinuities: "discontinuities_of (forgiving c E) f = discontinuities_of E f"
  by (simp add: discontinuities_of_def forgiving_fields split: sum.splits)

lemma forgiving_first_in_interval:
  "first_in_interval (forgiving c E) a b ps = first_in_interval E a b ps"
  by (induction ps) (simp_all add: forgiving_fields)

lemma forgiving_closed_branch:
  "closed_branch (forgiving c E) f ps a b = closed_branch E f ps a b"
  by (simp add: closed_branch_def forgiving_fields forgiving_first_in_interval
           split: prod.splits option.splits)

lemma forgiving_limit_is_infinite:
  "\<not> truthy (is_infinite E c) \<Longrightarrow>
     limit_is_infinite (forgiving c E) f point d = limit_is_infinite E f point d"
  by (simp add: limit_is_infinite_def forgiving_fields split: sum.splits)

lemma forgiving_open_branch:
  "\<not> truthy (is_infinite E c) \<Longrightarrow>
     open_branch (forgiving c E) f t a b = open_branch E f t a b"
  by (simp add: open_branch_eq forgiving_limit_is_infinite forgiving_fields cong: if_cong)

lemma forgiving_check:
  assumes "\<not> truthy (is_infinite E c)"
  shows "check_uniform_continuity (forgiving c E) func_str t a b
           = check_uniform_continuity E func_str t a b"
  by (simp add: check_uniform_continuity_def forgiving_fields forgiving_discontinuities
                forgiving_closed_branch forgiving_open_branch [OF assms]
           split: sum.splits)

text \<open>
  Claim C5. An exception raised by \<open>singularities\<close> or by \<open>limit\<close> is absorbed by the
  classifier: it returns what it returns on the engine that gives the empty list of
  singularities and a finite limit in place of each failure (calls included), and that
  engine never raises in either call. In particular, on the tag \<open>[a, b]\<close> with finite
  bounds a failed singularity computation gives ``uniformly continuous'', and on the
  other tags failed limits at both ends give ``uniformly continuous''. The classifier
  has no exceptional result: its every call that may raise stands in a \<open>try\<close>.
\<close>

theorem engine_failures_absorbed:
  assumes "\<not> truthy (is_infinite E c)"
  shows "check_uniform_continuity (forgiving c E) func_str interval_type a_sym b_sym
           = check_uniform_continuity E func_str interval_type a_sym b_sym
       \<and> (\<forall>f. singularities (forgiving c E) f \<noteq> Inl e)
       \<and> (\<forall>f point d. limit (forgiving c E) f point d \<noteq> Inl e)
       \<and> (\<forall>f e1. parse_expr E func_str = Inr f \<and> singularities E f = Inl e1
                  \<and> \<not> truthy (is_infinite E a_sym) \<and> \<not> truthy (is_infinite E b_sym)
            \<longrightarrow> fst (check_uniform_continuity E func_str (ascii ''[a, b]'') a_sym b_sym)
                  = (verdict_uc, reason_heine_cantor (latex E a_sym) (latex E b_sym), Some f))
       \<and> (\<forall>f e1 e2. parse_expr E func_str = Inr f \<and> interval_type \<noteq> ascii ''[a, b]''
                  \<and> limit E f a_sym Plus = Inl e1 \<and> limit E f b_sym Minus = Inl e2
            \<longrightarrow> fst (check_uniform_continuity E func_str interval_type a_sym b_sym)
                  = (verdict_uc, reason_finite_limits, Some f))"
proof -
  have closed: "fst (check_uniform_continuity E func_str (ascii ''[a, b]'') a_sym b_sym)
                  = (verdict_uc, reason_heine_cantor (latex E a_sym) (latex E b_sym), Some f)"
    if "parse_expr E func_str = Inr f" "singularities E f = Inl e1"
       "\<not> truthy (is_infinite E a_sym)" "\<not> truthy (is_infinite E b_sym)" for f e1
    using closed_finite_result [OF that(1,3,4)] that(2) by (simp add: discontinuities_of_def)
  have opened: "fst (check_uniform_continuity E func_str interval_type a_sym b_sym)
                  = (verdict_uc, reason_finite_limits, Some f)"
    if "parse_expr E func_str = Inr f" "interval_type \<noteq> ascii ''[a, b]''"
       "limit E f a_sym Plus = Inl e1" "limit E f b_sym Minus = Inl e2" for f e1 e2
    using check_open [OF that(1,2)] that(3,4)
    by (simp add: open_branch_eq limit_is_infinite_def)
  have 1: "check_uniform_continuity (forgiving c E) func_str interval_type a_sym b_sym
             = check_uniform_continuity E func_str interval_type a_sym b_sym"
    by (simp add: forgiving_check [OF assms])
  have 2: "\<forall>f. singularities (forgiving c E) f \<noteq> Inl e"
    by (simp add: forgiving_fields split: sum.splits)
  have 3: "\<forall>f point d. limit (forgiving c E) f point d \<noteq> Inl e"
    by (simp add: forgiving_fields split: sum.splits)
  have 4: "\<forall>f e1. parse_expr E func_str = Inr f \<and> singularities E f = Inl e1
                  \<and> \<not> truthy (is_infinite E a_sym) \<and> \<not> truthy (is_infinite E b_sym)
            \<longrightarrow> fst (check_uniform_continuity E func_str (ascii ''[a, b]'') a_sym b_sym)
                  = (verdict_uc, reason_heine_cantor (latex E a_sym) (latex E b_sym), Some f)"
    using closed by blast
  have 5: "\<forall>f e1 e2. parse_expr E func_str = Inr f \<and> interval_type \<noteq> ascii ''[a, b]''
                  \<and> limit E f a_sym Plus = Inl e1 \<and> limit E f b_sym Minus = Inl e2
            \<longrightarrow> fst (check_uniform_continuity E func_str interval_type a_sym b_sym)
                  = (verdict_uc, reason_finite_limits, Some f)"
    using opened by blast
  from 1 2 3 4 5 show ?thesis by (intro conjI)
qed


text \<open>The expression \<open>g(x)\<close>, on which both computations raise.\<close>

theorem engine_failures_absorbed_witness:
  "\<not> truthy (is_infinite demo (Num 0))
   \<and> parse_expr demo (ascii ''g(x)'') = Inr Opaque
   \<and> singularities demo Opaque = Inl (Exception [])
   \<and> limit demo Opaque (Num 0) Plus = Inl (Exception [])
   \<and> limit demo Opaque (Num 1) Minus = Inl (Exception [])
   \<and> fst (check_uniform_continuity demo (ascii ''g(x)'') (ascii ''[a, b]'') (Num 0) (Num 1))
       = (verdict_uc, reason_heine_cantor (ascii ''0'') (ascii ''1''), Some Opaque)
   \<and> fst (check_uniform_continuity demo (ascii ''g(x)'') (ascii ''(a, b)'') (Num 0) (Num 1))
       = (verdict_uc, reason_finite_limits, Some Opaque)
   \<and> check_uniform_continuity (forgiving (Num 0) demo) (ascii ''g(x)'') (ascii ''(a, b)'')
         (Num 0) (Num 1)
       = check_uniform_continuity demo (ascii ''g(x)'') (ascii ''(a, b)'') (Num 0) (Num 1)"
proof -
  have c: "\<not> truthy (is_infinite demo (Num 0))" "\<not> truthy (is_infinite demo (Num 1))"
    by (rule demo_infinite)+
  have s: "singularities demo Opaque = Inl (Exception [])"
    by (simp add: demo_simps demo_singularities_def)
  have l: "limit demo Opaque (Num 0) Plus = Inl (Exception [])"
          "limit demo Opaque (Num 1) Minus = Inl (Exception [])"
    by (simp_all add: demo_simps demo_limit_def)
  have t: "ascii ''(a, b)'' \<noteq> ascii ''[a, b]''" by simp
  from engine_failures_absorbed [OF c(1), of "ascii ''g(x)''" "ascii ''(a, b)''" "Num 0" "Num 1"]
    c s l t demo_parse_g demo_latex_small
  show ?thesis by simp
qed

section \<open>The sampled series\<close>

lemma replace_infinities_map:
  "replace_infinities y_vals = map (\<lambda>y. if y = PosInf \<or> y = NegInf then NaN else y) y_vals"
  by (induction y_vals)
     (auto simp add: replace_infinities_def assign_where_def isinf_def isneginf_def)

lemma replace_infinities_no_infinity:
  "PosInf \<notin> set (replace_infinities y_vals) \<and> NegInf \<notin> set (replace_infinities y_vals)"
  by (auto simp add: replace_infinities_map)

text \<open>
  Claim C8. Whatever the sampled function gives: when it gives an array, the series
  handed to the plot is that array with each infinite value, positive or negative,
  replaced by not-a-number and every other value kept; so no series that is plotted,
  here or in the plot section of the page, holds an infinite value.
\<close>

theorem plotted_series_has_no_infinity:
  "(\<forall>y_vals. f_lambda x_vals = Inr (Array y_vals)
      \<longrightarrow> plot_series f_lambda x_vals
            = Some (map (\<lambda>y. if y = PosInf \<or> y = NegInf then NaN else y) y_vals))
   \<and> (\<forall>ys. plot_series f_lambda x_vals = Some ys \<longrightarrow> PosInf \<notin> set ys \<and> NegInf \<notin> set ys)
   \<and> (\<forall>xs ys. plot_section E func_sympy a_sym b_sym = Series xs ys
         \<longrightarrow> PosInf \<notin> set ys \<and> NegInf \<notin> set ys)"
proof -
  have series: "PosInf \<notin> set ys \<and> NegInf \<notin> set ys" if "plot_series g xs = Some ys" for g xs ys
    using that replace_infinities_no_infinity
    by (auto simp add: plot_series_def split: sum.splits ndarray.splits)
  have 1: "\<forall>y_vals. f_lambda x_vals = Inr (Array y_vals)
      \<longrightarrow> plot_series f_lambda x_vals
            = Some (map (\<lambda>y. if y = PosInf \<or> y = NegInf then NaN else y) y_vals)"
    by (simp add: plot_series_def replace_infinities_map)
  have 2: "\<forall>ys. plot_series f_lambda x_vals = Some ys \<longrightarrow> PosInf \<notin> set ys \<and> NegInf \<notin> set ys"
    using series by blast
  have 3: "\<forall>xs ys. plot_section E func_sympy a_sym b_sym = Series xs ys
         \<longrightarrow> PosInf \<notin> set ys \<and> NegInf \<notin> set ys"
    using series
    by (auto simp add: plot_section_def Let_def split: prod.splits option.splits)
  from 1 2 3 show ?thesis by (intro conjI)
qed

text \<open>\<open>1/x\<close> sampled at \<open>-1\<close>, \<open>0\<close> and \<open>-inf\<close>: the value at \<open>0\<close> is infinite and is replaced.\<close>

theorem plotted_series_has_no_infinity_witness:
  "demo_lambdify Recip [Finite (- 1), Finite 0, NegInf] = Inr (Array [Finite (- 1), PosInf, Finite 0])
   \<and> plot_series (demo_lambdify Recip) [Finite (- 1), Finite 0, NegInf]
       = Some [Finite (- 1), NaN, Finite 0]"
proof -
  have l: "demo_lambdify Recip [Finite (- 1), Finite 0, NegInf]
             = Inr (Array [Finite (- 1), PosInf, Finite 0])"
    by (simp add: demo_lambdify_def recip_def)
  from plotted_series_has_no_infinity
         [of "demo_lambdify Recip" "[Finite (- 1), Finite 0, NegInf]" demo Recip "Num 0" "Num 1"]
    l show ?thesis by simp
qed

section \<open>The submission handler and the page\<close>

lemma on_submit_stopped:
  "read_bounds E a_str b_str = Inl messages \<Longrightarrow>
     on_submit E func_input interval_type a_str b_str = Stopped messages"
  by (simp add: on_submit_def)

lemma on_submit_eq:
  assumes "read_bounds E a_str b_str = Inr (a_sym, b_sym)"
  shows "on_submit E func_input interval_type a_str b_str =
           Shown \<lparr>bounds = (a_sym, b_sym),
                  classified = fst (check_uniform_continuity E func_input interval_type a_sym b_sym),
                  engine_calls = snd (check_uniform_continuity E func_input interval_type a_sym b_sym),
                  headline =
                    (if verdict (fst (check_uniform_continuity E func_input interval_type a_sym b_sym))
                          = verdict_uc then Success
                     else if verdict (fst (check_uniform_continuity E func_input interval_type a_sym b_sym))
                          = verdict_not_uc then Error
                     else Warning,
                     banner (verdict (fst (check_uniform_continuity E func_input interval_type a_sym b_sym)))),
                  info = justification
                           (fst (check_uniform_continuity E func_input interval_type a_sym b_sym)),
                  plotted =
                    (case expression
                            (fst (check_uniform_continuity E func_input interval_type a_sym b_sym)) of
                       None \<Rightarrow> NoPlotSection
                     | Some f \<Rightarrow> if truth E f then plot_section E f a_sym b_sym
                                 else NoPlotSection)\<rparr>"
proof -
  obtain result reason func_sympy calls where
    "check_uniform_continuity E func_input interval_type a_sym b_sym
       = ((result, reason, func_sympy), calls)"
    by (metis prod.exhaust)
  with assms show ?thesis
    by (simp add: on_submit_def verdict_def justification_def expression_def)
qed

lemma on_submit_shown:
  assumes "on_submit E func_input interval_type a_str b_str = Shown pg"
      and "bounds pg = (a_sym, b_sym)"
  shows "read_bounds E a_str b_str = Inr (a_sym, b_sym)
       \<and> classified pg = fst (check_uniform_continuity E func_input interval_type a_sym b_sym)
       \<and> engine_calls pg = snd (check_uniform_continuity E func_input interval_type a_sym b_sym)
       \<and> plotted pg =
           (case expression (classified pg) of
              None \<Rightarrow> NoPlotSection
            | Some f \<Rightarrow> if truth E f then plot_section E f a_sym b_sym else NoPlotSection)"
proof (cases "read_bounds E a_str b_str")
  case (Inl messages)
  with assms(1) show ?thesis by (simp add: on_submit_def)
next
  case (Inr ab)
  obtain a b where ab: "ab = (a, b)" by (cases ab)
  from on_submit_eq [of E a_str b_str a b func_input interval_type] Inr ab assms
  show ?thesis by auto
qed

lemma read_bounds_ordered:
  assumes "read_bounds E a_str b_str = Inr (a_sym, b_sym)"
      and "\<not> truthy (is_infinite E a_sym)" and "\<not> truthy (is_infinite E b_sym)"
  shows "evalf E a_sym < evalf E b_sym"
  using assms by (auto simp add: read_bounds_def split: sum.splits if_splits)

text \<open>
  Claim C7. When both bound texts parse to finite reals with \<open>a \<ge> b\<close> (as \<open>evalf\<close>
  compares them), the handler shows the ordering error and stops; no page is built, so
  the classifier is not called. And whenever a page is shown, it shows what the
  classifier returned on the parsed bounds, and if both of these are finite then
  \<open>a < b\<close>.
\<close>

theorem ordering_checked_before_classification:
  "(\<forall>a_sym b_sym.
       parse_bound E a_str = Inr a_sym \<and> parse_bound E b_str = Inr b_sym
       \<and> truthy (is_real E a_sym) \<and> truthy (is_real E b_sym)
       \<and> \<not> truthy (is_infinite E a_sym) \<and> \<not> truthy (is_infinite E b_sym)
       \<and> evalf E a_sym \<ge> evalf E b_sym
     \<longrightarrow> on_submit E func_input interval_type a_str b_str = Stopped [msg_ordering])
   \<and> (\<forall>pg a_sym b_sym.
       on_submit E func_input interval_type a_str b_str = Shown pg \<and> bounds pg = (a_sym, b_sym)
     \<longrightarrow> classified pg = fst (check_uniform_continuity E func_input interval_type a_sym b_sym)
         \<and> (\<not> truthy (is_infinite E a_sym) \<and> \<not> truthy (is_infinite E b_sym)
              \<longrightarrow> evalf E a_sym < evalf E b_sym))"
proof -
  have 1: "on_submit E func_input interval_type a_str b_str = Stopped [msg_ordering]"
    if "parse_bound E a_str = Inr a_sym" "parse_bound E b_str = Inr b_sym"
       "truthy (is_real E a_sym)" "truthy (is_real E b_sym)"
       "\<not> truthy (is_infinite E a_sym)" "\<not> truthy (is_infinite E b_sym)"
       "evalf E a_sym \<ge> evalf E b_sym" for a_sym b_sym
  proof -
    from that have "read_bounds E a_str b_str = Inl [msg_ordering]"
      by (simp add: read_bounds_def)
    then show ?thesis by (rule on_submit_stopped)
  qed
  have 2: "classified pg = fst (check_uniform_continuity E func_input interval_type a_sym b_sym)
         \<and> (\<not> truthy (is_infinite E a_sym) \<and> \<not> truthy (is_infinite E b_sym)
              \<longrightarrow> evalf E a_sym < evalf E b_sym)"
    if "on_submit E func_input interval_type a_str b_str = Shown pg" "bounds pg = (a_sym, b_sym)"
    for pg a_sym b_sym
    using on_submit_shown [OF that] read_bounds_ordered [of E a_str b_str a_sym b_sym]
    by simp
  from 1 2 show ?thesis by blast
qed


text \<open>The bounds \<open>5\<close> and \<open>1\<close> are rejected; the bounds \<open>0\<close> and \<open>1\<close> reach the classifier.\<close>

theorem ordering_checked_before_classification_witness:
  "parse_bound demo (ascii ''5'') = Inr (Num 5) \<and> parse_bound demo (ascii ''1'') = Inr (Num 1)
   \<and> truthy (is_real demo (Num 5)) \<and> truthy (is_real demo (Num 1))
   \<and> \<not> truthy (is_infinite demo (Num 5)) \<and> \<not> truthy (is_infinite demo (Num 1))
   \<and> evalf demo (Num 5) \<ge> evalf demo (Num 1)
   \<and> on_submit demo (ascii ''sin(x)'') (ascii ''(a, b)'') (ascii ''5'') (ascii ''1'')
       = Stopped [msg_ordering]
   \<and> (case on_submit demo (ascii ''sin(x)'') (ascii ''(a, b)'') (ascii ''0'') (ascii ''1'') of
         Stopped messages \<Rightarrow> False
       | Shown pg \<Rightarrow>
           bounds pg = (Num 0, Num 1)
           \<and> classified pg
               = fst (check_uniform_continuity demo (ascii ''sin(x)'') (ascii ''(a, b)'') (Num 0) (Num 1))
           \<and> evalf demo (Num 0) < evalf demo (Num 1))"
proof -
  have ge: "evalf demo (Num 5) \<ge> evalf demo (Num 1)"
    by (simp add: demo_simps demo_evalf_def)
  obtain pg where pg:
    "on_submit demo (ascii ''sin(x)'') (ascii ''(a, b)'') (ascii ''0'') (ascii ''1'') = Shown pg"
    "bounds pg = (Num 0, Num 1)"
    using on_submit_eq [OF demo_read_bounds(1), of "ascii ''sin(x)''" "ascii ''(a, b)''"] by simp
  from ordering_checked_before_classification
         [of demo "ascii ''5''" "ascii ''1''" "ascii ''sin(x)''" "ascii ''(a, b)''"]
       ordering_checked_before_classification
         [of demo "ascii ''0''" "ascii ''1''" "ascii ''sin(x)''" "ascii ''(a, b)''"]
       pg ge demo_bounds demo_real demo_infinite
  show ?thesis by simp
qed






end
